theory Spec2Isabelle
  imports Complex_Main "HOL-Library.Sublist" "HOL-Library.Multiset"
begin

section \<open>Values, strings and the libraries the program calls\<close>

text \<open>
  A Python \<open>str\<close> is modelled as the list of its Unicode code points, so that equality,
  slicing, substring tests and the one-character wildcard of \<open>LIKE\<close> count what the
  source counts. \<open>asc\<close> writes an ASCII literal. A Python \<open>float\<close> is modelled as a real
  number: rounding error, infinities and NaN are outside the model.
\<close>

type_synonym pystr = "nat list"

definition asc :: "string \<Rightarrow> pystr" where
  "asc s = map of_char s"

text \<open>\<open>utils/constants.py\<close>: the two enumerations and their values.\<close>

datatype QRCodeType =
  URL | TEXT | WIFI | VCARD | EMAIL | SMS | PHONE | LOCATION | EVENT | BITCOIN | CONTACT | WHATSAPP

fun QRCodeType_value :: "QRCodeType \<Rightarrow> pystr" where
  "QRCodeType_value URL = asc ''URL''"
| "QRCodeType_value TEXT = [25991, 26412]"
| "QRCodeType_value WIFI = asc ''WiFi''"
| "QRCodeType_value VCARD = [30005, 23376, 21517, 29255]"
| "QRCodeType_value EMAIL = [30005, 23376, 37038, 20214]"
| "QRCodeType_value SMS = [30701, 20449]"
| "QRCodeType_value PHONE = [30005, 35805]"
| "QRCodeType_value LOCATION = [22320, 29702, 20301, 32622]"
| "QRCodeType_value EVENT = [26085, 21382, 20107, 20214]"
| "QRCodeType_value BITCOIN = [27604, 29305, 24065]"
| "QRCodeType_value CONTACT = [32852, 31995, 20154]"
| "QRCodeType_value WHATSAPP = asc ''WhatsApp''"

definition QRCodeType_members :: "QRCodeType list" where
  "QRCodeType_members =
     [URL, TEXT, WIFI, VCARD, EMAIL, SMS, PHONE, LOCATION, EVENT, BITCOIN, CONTACT, WHATSAPP]"

datatype OutputFormat = PNG | JPEG | SVG | PDF


text \<open>
  Python values as they occur in dictionaries, in rows fetched from the store and in the
  fields of a record. Type annotations are not enforced at run time, so a field holds
  whatever value was passed in.
\<close>

datatype pyval =
    PNone
  | PBool bool
  | PInt int
  | PFloat real
  | PStr pystr
  | PList "pyval list"
  | PDict "(pystr \<times> pyval) list"
  | PQRCodeType QRCodeType
  | POutputFormat OutputFormat

text \<open>Truth value of an object (\<open>if v\<close>, \<open>not v\<close>).\<close>

fun truthy :: "pyval \<Rightarrow> bool" where
  "truthy PNone = False"
| "truthy (PBool b) = b"
| "truthy (PInt n) = (n \<noteq> 0)"
| "truthy (PFloat x) = (x \<noteq> 0)"
| "truthy (PStr s) = (s \<noteq> [])"
| "truthy (PList xs) = (xs \<noteq> [])"
| "truthy (PDict kvs) = (kvs \<noteq> [])"
| "truthy (PQRCodeType t) = True"
| "truthy (POutputFormat f) = True"

text \<open>\<open>isinstance(v, int)\<close> holds for \<open>bool\<close> as well; \<open>float(v)\<close> of such a value.\<close>

fun int_like :: "pyval \<Rightarrow> int option" where
  "int_like (PInt n) = Some n"
| "int_like (PBool b) = Some (if b then 1 else 0)"
| "int_like v = None"

datatype exn =
    ValueError
  | TypeError
  | IndexError
  | AttributeError
  | OverflowError
  | UnboundLocalError
  | SqliteError
  | LibraryError

text \<open>The column affinities of the table \<open>qrcodes\<close>.\<close>

datatype affinity = AffText | AffInteger | AffReal

text \<open>
  What the program takes from libraries and from the clock. The functions are parameters
  of the model; where a library's result is fixed by the arguments the program passes,
  the model computes it and consults the parameter only for the rest.
\<close>

record ext =
  json_dumps :: "pyval \<Rightarrow> pystr option"
  json_loads :: "pystr \<Rightarrow> pyval option"
  float_of_str :: "pystr \<Rightarrow> real option"
  int16_other :: "pystr \<Rightarrow> int option"
  now_iso :: pystr
  generate_id :: "pyval \<Rightarrow> pystr"
  round_tie :: "real \<Rightarrow> real"
  float_percent :: "nat \<Rightarrow> nat \<Rightarrow> int"
  sqlite_affinity :: "affinity \<Rightarrow> pyval \<Rightarrow> pyval"
  sqlite_text :: "pyval \<Rightarrow> pystr"
  pil_image_new :: "int \<Rightarrow> pyval \<Rightarrow> exn option"

section \<open>The record model (\<open>core/models.py\<close>)\<close>

record QRCodeData =
  id' :: pyval
  data :: pyval
  qr_type :: QRCodeType
  version :: pyval
  error_correction :: pyval
  size' :: pyval
  border :: pyval
  foreground_color :: pyval
  background_color :: pyval
  logo_path :: pyval
  logo_scale :: real
  gradient_start :: pyval
  gradient_end :: pyval
  gradient_type :: pyval
  created_at :: pyval
  tags :: pyval
  notes' :: pyval
  output_format :: pyval

text \<open>
  \<open>QRCodeData.__post_init__\<close>. The dataclass constructor stores its arguments and then
  runs this method, so a constructed record is \<open>post_init\<close> of the raw field values.
\<close>

definition post_init :: "ext \<Rightarrow> QRCodeData \<Rightarrow> QRCodeData" where
  "post_init e r0 =
     (let r1 = (if created_at r0 = PStr [] then r0\<lparr>created_at := PStr (now_iso e)\<rparr> else r0);
          r2 = (if tags r1 = PNone then r1\<lparr>tags := PList []\<rparr> else r1);
          r3 = (if logo_scale r2 < 0.05 then r2\<lparr>logo_scale := 0.05\<rparr>
                else if logo_scale r2 > 0.5 then r2\<lparr>logo_scale := 0.5\<rparr>
                else r2)
      in if \<not> truthy (logo_path r3) then r3\<lparr>logo_scale := 0.2\<rparr> else r3)"

text \<open>\<open>QRCodeType(v)\<close>: the member with that value, or the member itself; else ValueError.\<close>

fun QRCodeType_of :: "pyval \<Rightarrow> QRCodeType option" where
  "QRCodeType_of (PStr s) = find (\<lambda>t. QRCodeType_value t = s) QRCodeType_members"
| "QRCodeType_of (PQRCodeType t) = Some t"
| "QRCodeType_of v = None"








section \<open>Decoding a stored row (\<open>core/database.py\<close>)\<close>

text \<open>
  A row is the tuple the engine returns for \<open>SELECT *\<close>: column 0 is \<open>id\<close>, 1 \<open>data\<close>,
  2 \<open>qr_type\<close>, 3 \<open>version\<close>, 4 \<open>error_correction\<close>, 5 \<open>size\<close>, 6 \<open>border\<close>,
  7 \<open>foreground_color\<close>, 8 \<open>background_color\<close>, 9 \<open>logo_path\<close>, 10 \<open>gradient_start\<close>,
  11 \<open>gradient_end\<close>, 12 \<open>gradient_type\<close>, 13 \<open>created_at\<close>, 14 \<open>tags\<close>, 15 \<open>notes\<close>,
  16 \<open>output_format\<close>, 17 \<open>logo_scale\<close>. Cells are \<open>PNone\<close> (NULL), \<open>PInt\<close>, \<open>PFloat\<close> or
  \<open>PStr\<close>; BLOB cells are outside the model.
\<close>

type_synonym row = "pyval list"

text \<open>
  The \<open>tags\<close> cell: \<open>json.loads\<close> when the cell is truthy. A JSONDecodeError gives the
  empty list; a cell that is not a \<open>str\<close> makes \<open>json.loads\<close> raise TypeError, which
  the outer handler turns into the result \<open>None\<close> of the whole decoding (\<open>Inl\<close> here).
\<close>

definition row_tags :: "ext \<Rightarrow> pyval \<Rightarrow> exn + pyval" where
  "row_tags e c =
     (if truthy c then
        (case c of
           PStr s \<Rightarrow> (case json_loads e s of None \<Rightarrow> Inr (PList []) | Some v \<Rightarrow> Inr v)
         | _ \<Rightarrow> Inl TypeError)
      else Inr (PList []))"

definition row_logo_scale :: "ext \<Rightarrow> pyval \<Rightarrow> real" where
  "row_logo_scale e c =
     (let v = (if truthy c then c else PFloat 0.2) in
      case v of
        PStr s \<Rightarrow> (case float_of_str e s of None \<Rightarrow> 0.2 | Some x \<Rightarrow> x)
      | PFloat x \<Rightarrow> (if x > 1 then x / 100.0 else x)
      | _ \<Rightarrow>
          (case int_like v of
             Some n \<Rightarrow> (if real_of_int n > 1 then real_of_int n / 100.0 else real_of_int n)
           | None \<Rightarrow> 0.2))"

definition or_default :: "pyval \<Rightarrow> pyval \<Rightarrow> pyval" where
  "or_default c dflt = (if truthy c then c else dflt)"

definition not_none_or :: "pyval \<Rightarrow> pyval \<Rightarrow> pyval" where
  "not_none_or c dflt = (if c \<noteq> PNone then c else dflt)"

text \<open>
  \<open>QRCodeDatabase._row_to_qrcode_data\<close>. Columns 0 to 15 are read unconditionally, so a
  shorter tuple raises IndexError; IndexError, ValueError and TypeError are caught and
  give \<open>None\<close>.
\<close>

definition row_to_qrcode_data :: "ext \<Rightarrow> row \<Rightarrow> QRCodeData option" where
  "row_to_qrcode_data e r =
     (if length r < 16 then None
      else case row_tags e (r ! 14) of
        Inl _ \<Rightarrow> None
      | Inr tgs \<Rightarrow>
          Some (post_init e
            \<lparr> id' = r ! 0,
              data = r ! 1,
              qr_type = (case QRCodeType_of (r ! 2) of None \<Rightarrow> TEXT | Some t \<Rightarrow> t),
              version = not_none_or (r ! 3) (PInt 0),
              error_correction = or_default (r ! 4) (PStr (asc ''H'')),
              size' = not_none_or (r ! 5) (PInt 10),
              border = not_none_or (r ! 6) (PInt 4),
              foreground_color = or_default (r ! 7) (PStr (asc ''#000000'')),
              background_color = or_default (r ! 8) (PStr (asc ''#FFFFFF'')),
              logo_path = or_default (r ! 9) PNone,
              logo_scale = (if length r > 17 then row_logo_scale e (r ! 17) else 0.2),
              gradient_start = or_default (r ! 10) PNone,
              gradient_end = or_default (r ! 11) PNone,
              gradient_type = or_default (r ! 12) (PStr (asc ''linear'')),
              created_at = or_default (r ! 13) (PStr []),
              tags = tgs,
              notes' = or_default (r ! 15) (PStr []),
              output_format =
                (if length r > 16 \<and> truthy (r ! 16) then r ! 16 else PStr (asc ''PNG'')) \<rparr>))"


section \<open>Validation (\<open>QRCodeData.validate\<close>, \<open>is_valid_color\<close>)\<close>





text \<open>The value of a number in a comparison; other operands raise TypeError.\<close>

fun num_of :: "pyval \<Rightarrow> real option" where
  "num_of (PInt n) = Some (real_of_int n)"
| "num_of (PFloat x) = Some x"
| "num_of (PBool b) = Some (if b then 1 else 0)"
| "num_of v = None"










section \<open>The persistence store (\<open>core/database.py\<close>)\<close>

text \<open>
  The table \<open>qrcodes\<close> is the list of its rows in insertion order; \<open>has_logo_scale\<close>
  says whether the table has the eighteenth column \<open>logo_scale\<close>, which
  \<open>init_database\<close> adds and every operation probes.
\<close>

record db =
  qrcodes :: "row list"
  has_logo_scale :: bool

text \<open>
  A call either returns or lets an exception escape. The engine may fail: the call
  \<open>sqlite3.connect\<close> raises \<open>sqlite3.Error\<close>, or the first statement executed on the
  open connection does.
\<close>

datatype 'a outcome = Return 'a | Raise exn

datatype fault = NoFault | ConnectFails | StatementFails

definition cell :: "row \<Rightarrow> nat \<Rightarrow> pyval" where
  "cell r k = (if k < length r then r ! k else PNone)"

definition int64 :: "int \<Rightarrow> bool" where
  "int64 n = (- (2 ^ 63) \<le> n \<and> n < 2 ^ 63)"

text \<open>
  Binding a statement parameter: \<open>None\<close>, \<open>int\<close> (and \<open>bool\<close>), \<open>float\<close> and \<open>str\<close> are
  supported; an \<open>int\<close> beyond 64 bits raises OverflowError; any other type raises an
  error of the engine's family.
\<close>

fun bind_param :: "pyval \<Rightarrow> exn + pyval" where
  "bind_param PNone = Inr PNone"
| "bind_param (PBool b) = Inr (PInt (if b then 1 else 0))"
| "bind_param (PInt n) = (if int64 n then Inr (PInt n) else Inl OverflowError)"
| "bind_param (PFloat x) = Inr (PFloat x)"
| "bind_param (PStr s) = Inr (PStr s)"
| "bind_param v = Inl SqliteError"

fun bind_params :: "pyval list \<Rightarrow> exn + pyval list" where
  "bind_params [] = Inr []"
| "bind_params (v # vs) =
     (case bind_param v of
        Inl x \<Rightarrow> Inl x
      | Inr c \<Rightarrow> (case bind_params vs of Inl x \<Rightarrow> Inl x | Inr cs \<Rightarrow> Inr (c # cs)))"

definition column_affinities :: "affinity list" where
  "column_affinities =
     [AffText, AffText, AffText, AffInteger, AffText, AffInteger, AffInteger, AffText, AffText,
      AffText, AffText, AffText, AffText, AffText, AffText, AffText, AffText, AffReal]"

text \<open>
  A value whose storage class is the column's is stored as it is; the engine converts the
  others.
\<close>

fun store_cell :: "ext \<Rightarrow> affinity \<Rightarrow> pyval \<Rightarrow> pyval" where
  "store_cell e a PNone = PNone"
| "store_cell e AffText (PStr s) = PStr s"
| "store_cell e AffInteger (PInt n) = PInt n"
| "store_cell e AffReal (PFloat x) = PFloat x"
| "store_cell e a v = sqlite_affinity e a v"

text \<open>The parameter tuple of the \<open>INSERT OR REPLACE\<close> statement, without \<open>logo_scale\<close>.\<close>

definition insert_params :: "QRCodeData \<Rightarrow> pystr \<Rightarrow> pyval list" where
  "insert_params r tags_json =
     [id' r, data r, PStr (QRCodeType_value (qr_type r)), version r, error_correction r,
      size' r, border r, foreground_color r, background_color r, logo_path r,
      gradient_start r, gradient_end r, gradient_type r, created_at r, PStr tags_json,
      notes' r, output_format r]"

text \<open>
  \<open>QRCodeDatabase.save_qrcode\<close>. \<open>conn\<close> is initialised to \<open>None\<close> before the \<open>try\<close>,
  so the \<open>finally\<close> clause is safe when the connection fails. \<open>json.dumps\<close> raises
  TypeError on a value it cannot serialise, which the handler for \<open>sqlite3.Error\<close> does
  not catch. \<open>REPLACE\<close> removes the row with the same primary key; the columns \<open>data\<close>
  and \<open>qr_type\<close> are \<open>NOT NULL\<close>.
\<close>

definition save_qrcode :: "ext \<Rightarrow> fault \<Rightarrow> db \<Rightarrow> QRCodeData \<Rightarrow> bool outcome \<times> db" where
  "save_qrcode e f d r =
     (case f of
        ConnectFails \<Rightarrow> (Return False, d)
      | StatementFails \<Rightarrow> (Return False, d)
      | NoFault \<Rightarrow>
          (case json_dumps e (tags r) of
             None \<Rightarrow> (Raise TypeError, d)
           | Some tj \<Rightarrow>
               (case bind_params (insert_params r tj @
                        (if has_logo_scale d then [PFloat (logo_scale r)] else [])) of
                  Inl OverflowError \<Rightarrow> (Raise OverflowError, d)
                | Inl _ \<Rightarrow> (Return False, d)
                | Inr cells \<Rightarrow>
                    (let new = map2 (store_cell e) column_affinities cells in
                     if cell new 1 = PNone then (Return False, d)
                     else (Return True,
                           d\<lparr>qrcodes :=
                               filter (\<lambda>x. cell x 0 = PNone \<or> cell x 0 \<noteq> cell new 0) (qrcodes d)
                                 @ [new]\<rparr>)))))"

text \<open>
  \<open>QRCodeDatabase.load_qrcode\<close>: \<open>conn = None\<close> precedes the \<open>try\<close> here as well. The
  identifier is a \<open>str\<close>; \<open>fetchone\<close> gives the first matching row.
\<close>

definition load_qrcode :: "ext \<Rightarrow> fault \<Rightarrow> db \<Rightarrow> pystr \<Rightarrow> QRCodeData option outcome" where
  "load_qrcode e f d qrcode_id =
     (case f of
        ConnectFails \<Rightarrow> Return None
      | StatementFails \<Rightarrow> Return None
      | NoFault \<Rightarrow>
          (case find (\<lambda>x. cell x 0 = PStr qrcode_id) (qrcodes d) of
             None \<Rightarrow> Return None
           | Some r \<Rightarrow> (if r \<noteq> [] then Return (row_to_qrcode_data e r) else Return None)))"

text \<open>
  Comparison of stored values for \<open>ORDER BY\<close>: NULL first, then numbers, then text in
  code-point order.
\<close>

fun str_le :: "pystr \<Rightarrow> pystr \<Rightarrow> bool" where
  "str_le [] t = True"
| "str_le (a # s) [] = False"
| "str_le (a # s) (b # t) = (a < b \<or> (a = b \<and> str_le s t))"

fun storage_rank :: "pyval \<Rightarrow> nat" where
  "storage_rank PNone = 0"
| "storage_rank (PBool b) = 1"
| "storage_rank (PInt n) = 1"
| "storage_rank (PFloat x) = 1"
| "storage_rank (PStr s) = 2"
| "storage_rank v = 3"

definition cell_le :: "pyval \<Rightarrow> pyval \<Rightarrow> bool" where
  "cell_le a b =
     (if storage_rank a \<noteq> storage_rank b then storage_rank a < storage_rank b
      else case (a, b) of
        (PStr s, PStr t) \<Rightarrow> str_le s t
      | _ \<Rightarrow> (case (num_of a, num_of b) of (Some x, Some y) \<Rightarrow> x \<le> y | _ \<Rightarrow> True))"

text \<open>
  \<open>ORDER BY created_at DESC\<close>, as a stable insertion sort on column 13. The engine does
  not fix the order of rows with equal keys; the model keeps their table order.
\<close>

fun insert_desc :: "row \<Rightarrow> row list \<Rightarrow> row list" where
  "insert_desc r [] = [r]"
| "insert_desc r (x # xs) =
     (if cell_le (cell x 13) (cell r 13) then r # x # xs else x # insert_desc r xs)"

definition order_by_created_at_desc :: "row list \<Rightarrow> row list" where
  "order_by_created_at_desc rs = foldr insert_desc rs []"

text \<open>
  The local \<open>conn\<close> of the operations below is first assigned inside the \<open>try\<close>. When
  \<open>sqlite3.connect\<close> raises, the handler runs and then the \<open>finally\<close> clause evaluates
  \<open>if conn:\<close> on the unbound local: UnboundLocalError replaces the pending return.
\<close>

definition finally_close :: "bool \<Rightarrow> 'a outcome \<Rightarrow> 'a outcome" where
  "finally_close conn_bound res = (if conn_bound then res else Raise UnboundLocalError)"

text \<open>\<open>QRCodeDatabase.get_all_qrcodes\<close>; a row that does not decode is skipped.\<close>

definition get_all_qrcodes :: "ext \<Rightarrow> fault \<Rightarrow> db \<Rightarrow> QRCodeData list outcome" where
  "get_all_qrcodes e f d =
     (case f of
        ConnectFails \<Rightarrow> finally_close False (Return [])
      | StatementFails \<Rightarrow> finally_close True (Return [])
      | NoFault \<Rightarrow>
          finally_close True
            (Return (List.map_filter (row_to_qrcode_data e) (order_by_created_at_desc (qrcodes d)))))"

text \<open>\<open>QRCodeDatabase.delete_qrcode\<close>: true iff a row was removed.\<close>

definition delete_qrcode :: "fault \<Rightarrow> db \<Rightarrow> pystr \<Rightarrow> bool outcome \<times> db" where
  "delete_qrcode f d qrcode_id =
     (case f of
        ConnectFails \<Rightarrow> (finally_close False (Return False), d)
      | StatementFails \<Rightarrow> (finally_close True (Return False), d)
      | NoFault \<Rightarrow>
          (finally_close True (Return (list_ex (\<lambda>x. cell x 0 = PStr qrcode_id) (qrcodes d))),
           d\<lparr>qrcodes := filter (\<lambda>x. cell x 0 \<noteq> PStr qrcode_id) (qrcodes d)\<rparr>))"

text \<open>
  The engine's \<open>LIKE\<close>: \<open>%\<close> (37) matches any run of characters, \<open>_\<close> (95) exactly one,
  and ASCII letters match without regard to case.
\<close>

definition ascii_lower :: "nat \<Rightarrow> nat" where
  "ascii_lower c = (if 65 \<le> c \<and> c \<le> 90 then c + 32 else c)"

fun like :: "pystr \<Rightarrow> pystr \<Rightarrow> bool" where
  "like [] s = (s = [])"
| "like (p # ps) [] = (p = 37 \<and> like ps [])"
| "like (p # ps) (c # cs) =
     (if p = 37 then like ps (c # cs) \<or> like (p # ps) cs
      else if p = 95 then like ps cs
      else ascii_lower p = ascii_lower c \<and> like ps cs)"

text \<open>\<open>column LIKE ?\<close> is true; NULL gives NULL, a number is first rendered as text.\<close>

definition like_cell :: "ext \<Rightarrow> pystr \<Rightarrow> pyval \<Rightarrow> bool" where
  "like_cell e pat c =
     (case c of PNone \<Rightarrow> False | PStr s \<Rightarrow> like pat s | v \<Rightarrow> like pat (sqlite_text e v))"

text \<open>
  The \<open>WHERE\<close> clause that \<open>search_qrcodes\<close> builds: one condition for a non-empty
  keyword, one for a type, one for each tag of a non-empty tag list, joined by \<open>AND\<close>.
\<close>

definition search_where ::
  "ext \<Rightarrow> pystr option \<Rightarrow> QRCodeType option \<Rightarrow> pystr list option \<Rightarrow> row \<Rightarrow> bool" where
  "search_where e keyword qt tgs r =
     ((case keyword of
         None \<Rightarrow> True
       | Some k \<Rightarrow> k = [] \<or> like_cell e ([37] @ k @ [37]) (cell r 1)
                         \<or> like_cell e ([37] @ k @ [37]) (cell r 15))
      \<and> (case qt of None \<Rightarrow> True | Some t \<Rightarrow> cell r 2 = PStr (QRCodeType_value t))
      \<and> (case tgs of
           None \<Rightarrow> True
         | Some ts \<Rightarrow> list_all (\<lambda>t. like_cell e ([37, 34] @ t @ [34, 37]) (cell r 14)) ts))"

text \<open>\<open>LIMIT ? OFFSET ?\<close>: a negative limit means no limit, a negative offset none.\<close>

definition limit_offset :: "int \<Rightarrow> int \<Rightarrow> 'a list \<Rightarrow> 'a list" where
  "limit_offset limit offset xs =
     (let ys = drop (nat offset) xs in if limit < 0 then ys else take (nat limit) ys)"

text \<open>
  \<open>QRCodeDatabase.search_qrcodes\<close>. The count query runs first; the limit and the
  offset are bound as decimal text, which the engine must convert back to a 64-bit
  integer, failing otherwise with the count already assigned.
\<close>

definition search_qrcodes ::
  "ext \<Rightarrow> fault \<Rightarrow> db \<Rightarrow> pystr option \<Rightarrow> QRCodeType option \<Rightarrow> pystr list option \<Rightarrow> int \<Rightarrow> int
     \<Rightarrow> (QRCodeData list \<times> nat) outcome" where
  "search_qrcodes e f d keyword qt tgs limit offset =
     (case f of
        ConnectFails \<Rightarrow> finally_close False (Return ([], 0))
      | StatementFails \<Rightarrow> finally_close True (Return ([], 0))
      | NoFault \<Rightarrow>
          (let hits = filter (search_where e keyword qt tgs) (qrcodes d);
               total = length hits
           in if \<not> int64 limit \<or> \<not> int64 offset then finally_close True (Return ([], total))
              else finally_close True
                (Return (List.map_filter (row_to_qrcode_data e)
                           (limit_offset limit offset (order_by_created_at_desc hits)),
                         total))))"






section \<open>Batch generation (\<open>QRCodeEngine._generate_batch\<close>)\<close>

text \<open>
  The signals the engine emits. The texts of the notifications are represented by their
  kind and their arguments.
\<close>

datatype message =
    MsgBatchStart nat
  | MsgCancelled
  | MsgGenerating nat nat pyval
  | MsgItemFailed pyval
  | MsgBatchDone nat nat

datatype signal =
    ProgressUpdated int message
  | ErrorOccurred message
  | BatchCompleted nat nat

text \<open>\<open>v[:8]\<close>: defined on strings and lists; other values raise.\<close>

fun slice8 :: "pyval \<Rightarrow> pyval option" where
  "slice8 (PStr s) = Some (PStr (take 8 s))"
| "slice8 (PList xs) = Some (PList (take 8 xs))"
| "slice8 v = None"

text \<open>
  The loop state: the flag \<open>self.running\<close>, the counter \<open>successful\<close>, the signals
  emitted so far and the exception that left the loop, if any.

  \<open>ok q\<close> says whether the body of the \<open>try\<close> for item \<open>q\<close> (encoding, rendering, saving
  the file) completes without an exception. \<open>stops i\<close> says whether another thread calls
  \<open>stop()\<close> between the flag test of iteration \<open>i\<close> and the next test of the flag.

  The flag is tested once at the head of each iteration. The item's identifier is sliced
  in the \<open>try\<close> and again in the handler, so an identifier that cannot be sliced makes
  the handler itself raise, and that exception leaves the loop.
\<close>

type_synonym loop_state = "bool \<times> nat \<times> signal list \<times> exn option"

fun batch_loop ::
  "ext \<Rightarrow> (QRCodeData \<Rightarrow> bool) \<Rightarrow> (nat \<Rightarrow> bool) \<Rightarrow> nat \<Rightarrow> nat \<Rightarrow> QRCodeData list
     \<Rightarrow> loop_state \<Rightarrow> loop_state" where
  "batch_loop e ok stops total' i [] st = st"
| "batch_loop e ok stops total' i (q # qs) (running, successful, out, raised) =
     (if \<not> running then
        (running, successful,
         out @ [ProgressUpdated 0 MsgCancelled, BatchCompleted i total'], raised)
      else case slice8 (id' q) of
        None \<Rightarrow> (running, successful, out, Some TypeError)
      | Some p \<Rightarrow>
          (let out1 = out @ [ProgressUpdated (float_percent e (i + 1) total')
                               (MsgGenerating (i + 1) total' p)]
           in if ok q then
                batch_loop e ok stops total' (i + 1) qs
                  (running \<and> \<not> stops i, successful + 1,
                   out1 @ [BatchCompleted (i + 1) total'], raised)
              else
                batch_loop e ok stops total' (i + 1) qs
                  (running \<and> \<not> stops i, successful,
                   out1 @ [ErrorOccurred (MsgItemFailed p), BatchCompleted (i + 1) total'],
                   raised)))"

text \<open>
  \<open>_generate_batch\<close>, called with the flag \<open>running0\<close>: the signals emitted and the
  exception that escaped, if any. The closing summary is emitted only if the flag still
  holds after the loop.
\<close>

definition generate_batch ::
  "ext \<Rightarrow> (QRCodeData \<Rightarrow> bool) \<Rightarrow> (nat \<Rightarrow> bool) \<Rightarrow> bool \<Rightarrow> QRCodeData list
     \<Rightarrow> signal list \<times> exn option" where
  "generate_batch e ok stops running0 batch =
     (let total' = length batch in
      case batch_loop e ok stops total' 0 batch
             (running0, 0, [ProgressUpdated 0 (MsgBatchStart total')], None) of
        (running, successful, out, raised) \<Rightarrow>
          (if raised = None \<and> running
           then (out @ [ProgressUpdated 100 (MsgBatchDone successful total')], None)
           else (out, raised)))"

text \<open>Reading a signal log: items started, and the closing summary.\<close>

fun is_generating :: "signal \<Rightarrow> bool" where
  "is_generating (ProgressUpdated p (MsgGenerating a b c)) = True"
| "is_generating s = False"

fun is_summary :: "signal \<Rightarrow> bool" where
  "is_summary (ProgressUpdated p (MsgBatchDone a b)) = True"
| "is_summary s = False"

fun is_batch_completed :: "signal \<Rightarrow> bool" where
  "is_batch_completed (BatchCompleted a b) = True"
| "is_batch_completed s = False"

section \<open>Gradient rendering (\<open>QRCodeEngine._generate_gradient_qr\<close>)\<close>













section \<open>Confidence of a decoded hit (\<open>QRCodeScanner._calculate_confidence\<close>)\<close>

record Rect =
  left' :: int
  top' :: int
  width' :: int
  height' :: int

text \<open>
  The decoder's result object, as far as the score reads it. A field is \<open>None\<close> if the
  object lacks the attribute (\<open>hasattr\<close> is false).
\<close>

record Decoded =
  rect :: "Rect option"
  polygon :: "(int \<times> int) list option"

text \<open>
  \<open>round(x, 2)\<close>. A value exactly half-way between two hundredths is rounded according
  to its binary representation, which the model leaves to the parameter.
\<close>

definition py_round2 :: "ext \<Rightarrow> real \<Rightarrow> real" where
  "py_round2 e x =
     (if frac (x * 100) = 1 / 2 then round_tie e x
      else real_of_int \<lfloor>x * 100 + 1 / 2\<rfloor> / 100)"

definition calculate_confidence :: "ext \<Rightarrow> Decoded \<Rightarrow> real" where
  "calculate_confidence e obj =
     (let confidence = 1.0;
          confidence =
            (case rect obj of
               None \<Rightarrow> confidence
             | Some r \<Rightarrow>
                 (if width' r > 0 \<and> height' r > 0
                  then confidence * min (real_of_int (width' r * height' r) / 10000) 1.0
                  else confidence));
          confidence =
            (case polygon obj of
               None \<Rightarrow> confidence
             | Some pts \<Rightarrow>
                 (if length pts \<ge> 4
                  then confidence * min (real (length pts) / 4) 1.0
                  else confidence))
      in py_round2 e confidence)"

text \<open>The score as the specification words it: size factor times corner-count factor.\<close>

definition spec_confidence :: "Decoded \<Rightarrow> real" where
  "spec_confidence obj =
     (case (rect obj, polygon obj) of
        (Some r, Some pts) \<Rightarrow>
          min (real_of_int (width' r * height' r) / 10000) 1 * min (real (length pts) / 4) 1
      | _ \<Rightarrow> 1)"


section \<open>Records that follow their annotations\<close>






text \<open>What \<open>__post_init__\<close> leaves true of a record, given a non-empty time stamp.\<close>

definition constructed :: "QRCodeData \<Rightarrow> bool" where
  "constructed r =
     (created_at r \<noteq> PStr [] \<and> tags r \<noteq> PNone
      \<and> 0.05 \<le> logo_scale r \<and> logo_scale r \<le> 0.5
      \<and> (truthy (logo_path r) \<or> logo_scale r = 0.2))"


section \<open>Sample values\<close>

text \<open>
  One behaviour of the libraries, used to run the model on concrete inputs: it knows the
  JSON text of the empty list only, reads no number from a string, and lets the engine
  and the image library accept what they are given.
\<close>

definition example_ext :: ext where
  "example_ext =
     \<lparr> json_dumps = (\<lambda>v. if v = PList [] then Some (asc ''[]'') else None),
       json_loads = (\<lambda>s. if s = asc ''[]'' then Some (PList []) else None),
       float_of_str = (\<lambda>s. None),
       int16_other = (\<lambda>s. None),
       now_iso = asc ''2026-01-10T12:00:00'',
       generate_id = (\<lambda>v. asc ''0a1b2c3d''),
       round_tie = (\<lambda>x. x),
       float_percent = (\<lambda>i t. int (i * 100 div t)),
       sqlite_affinity = (\<lambda>a v. v),
       sqlite_text = (\<lambda>v. []),
       pil_image_new = (\<lambda>n c. if n < 0 then Some ValueError else None) \<rparr>"


text \<open>The row of the store's test: three columns set, the others NULL.\<close>

definition example_sparse_row :: row where
  "example_sparse_row =
     [PStr (asc ''invalid_id''), PStr (asc ''test data''), PStr (asc ''INVALID_TYPE'')]
       @ replicate 15 PNone"


text \<open>A stored row whose \<open>logo_scale\<close> column holds the integer 60, and a store with it.\<close>

definition example_percent_row :: row where
  "example_percent_row =
     [PStr (asc ''pct''), PStr (asc ''hello''), PStr (asc ''URL''), PInt 0, PStr (asc ''H''),
      PInt 10, PInt 4, PStr (asc ''#000000''), PStr (asc ''#FFFFFF''), PStr (asc ''logo.png''),
      PNone, PNone, PStr (asc ''linear''), PStr (asc ''2026-01-10T12:00:00''),
      PStr (asc ''[]''), PNone, PStr (asc ''PNG''), PInt 60]"

definition example_percent_db :: db where
  "example_percent_db = \<lparr> qrcodes = [example_percent_row], has_logo_scale = True \<rparr>"


text \<open>A hit with a bounding box of 100 by 100 and a polygon of two points.\<close>

definition example_hit :: Decoded where
  "example_hit =
     \<lparr> rect = Some \<lparr> left' = 0, top' = 0, width' = 100, height' = 100 \<rparr>,
       polygon = Some [(0, 0), (100, 100)] \<rparr>"


definition example_gradient :: QRCodeData where
  "example_gradient =
     \<lparr> id' = PStr (asc ''radial_test''),
       data = PStr (asc ''hello''),
       qr_type = TEXT,
       version = PInt 1,
       error_correction = PStr (asc ''H''),
       size' = PInt 10,
       border = PInt 0,
       foreground_color = PStr (asc ''#000000''),
       background_color = PStr (asc ''#FFFFFF''),
       logo_path = PNone,
       logo_scale = 0.2,
       gradient_start = PStr (asc ''#000000''),
       gradient_end = PStr (asc ''#C8C8C8''),
       gradient_type = PStr (asc ''radial''),
       created_at = PStr (asc ''2026-01-10T12:00:00''),
       tags = PList [],
       notes' = PStr [],
       output_format = PStr (asc ''PNG'') \<rparr>"


text \<open>
  A batch of five items, every one of which renders, with \<open>stop()\<close> called while the
  second item is being processed.
\<close>

definition example_batch :: "QRCodeData list" where
  "example_batch = replicate 5 example_gradient"

definition example_ok :: "QRCodeData \<Rightarrow> bool" where
  "example_ok q = True"

definition example_stops :: "nat \<Rightarrow> bool" where
  "example_stops j = (j = 1)"



section \<open>The record model: clamping of the logo scale\<close>







section \<open>Decoding rows\<close>

text \<open>
  Claim C6. A row of the table (at least the sixteen columns that are always read) whose
  \<open>qr_type\<close> is not a recognised value and whose optional columns, from \<open>version\<close> on,
  are NULL or missing decodes without an exception, to the record with the plain-text
  type and the documented defaults: error correction H, size 10, border 4, foreground
  \<open>#000000\<close>, background \<open>#FFFFFF\<close>, gradient type linear, output format PNG.
\<close>

theorem row_decode_defaults:
  assumes "16 \<le> length r"
      and "QRCodeType_of (r ! 2) = None"
      and "\<forall>i. 3 \<le> i \<and> i < length r \<longrightarrow> r ! i = PNone"
  shows "row_to_qrcode_data e r =
           Some \<lparr> id' = r ! 0, data = r ! 1, qr_type = TEXT, version = PInt 0,
                  error_correction = PStr (asc ''H''), size' = PInt 10, border = PInt 4,
                  foreground_color = PStr (asc ''#000000''),
                  background_color = PStr (asc ''#FFFFFF''),
                  logo_path = PNone, logo_scale = 0.2,
                  gradient_start = PNone, gradient_end = PNone,
                  gradient_type = PStr (asc ''linear''),
                  created_at = PStr (now_iso e), tags = PList [], notes' = PStr [],
                  output_format = PStr (asc ''PNG'') \<rparr>"
proof -
  have c: "r ! 3 = PNone" "r ! 4 = PNone" "r ! 5 = PNone" "r ! 6 = PNone" "r ! 7 = PNone"
    "r ! 8 = PNone" "r ! 9 = PNone" "r ! 10 = PNone" "r ! 11 = PNone" "r ! 12 = PNone"
    "r ! 13 = PNone" "r ! 14 = PNone" "r ! 15 = PNone"
    using assms(1,3) by simp_all
  have c16: "length r > 16 \<Longrightarrow> r ! 16 = PNone" using assms(3) by simp
  have c17: "length r > 17 \<Longrightarrow> r ! 17 = PNone" using assms(3) by simp
  show ?thesis
    using assms(1,2) c c16 c17
    by (cases "16 < length r"; cases "17 < length r")
       (simp_all add: row_to_qrcode_data_def row_tags_def row_logo_scale_def or_default_def
        not_none_or_def post_init_def Let_def)
qed

theorem row_decode_defaults_witness:
  "\<exists>q. row_to_qrcode_data example_ext example_sparse_row = Some q \<and> qr_type q = TEXT
       \<and> size' q = PInt 10 \<and> output_format q = PStr (asc ''PNG'')"
proof -
  have 1: "16 \<le> length example_sparse_row" by (simp add: example_sparse_row_def)
  have 2: "QRCodeType_of (example_sparse_row ! 2) = None"
    by (simp add: example_sparse_row_def QRCodeType_members_def asc_def)
  have 3: "\<forall>i. 3 \<le> i \<and> i < length example_sparse_row \<longrightarrow> example_sparse_row ! i = PNone"
    by (auto simp add: example_sparse_row_def nth_append)
  show ?thesis
    using row_decode_defaults [OF 1 2 3, of example_ext] by simp
qed

text \<open>
  Claim C7. A stored row with eighteen columns whose \<open>logo_scale\<close> column holds the
  integer 60 and whose \<open>logo_path\<close> is set (the \<open>tags\<close> column being NULL or text, as the
  column's affinity makes it) loads as a record: 60 is first read as 0.6, and the
  constructor clamps it, so the loaded record has \<open>logo_scale\<close> 0.5.
\<close>

theorem load_logo_scale_60:
  assumes "find (\<lambda>x. cell x 0 = PStr i) (qrcodes d) = Some r"
      and "17 < length r"
      and "r ! 17 = PInt 60"
      and "truthy (r ! 9)"
      and "\<not> truthy (r ! 14) \<or> (\<exists>s. r ! 14 = PStr s)"
  shows "row_logo_scale e (r ! 17) = 0.6 \<and>
         (\<exists>q. load_qrcode e NoFault d i = Return (Some q) \<and> logo_scale q = 0.5
               \<and> logo_path q = r ! 9)"
proof -
  have a: "row_logo_scale e (r ! 17) = 0.6"
    using assms(3) by (simp add: row_logo_scale_def)
  have ne: "r \<noteq> []" using assms(2) by auto
  have "\<exists>t. row_tags e (r ! 14) = Inr t"
    using assms(5) by (auto simp add: row_tags_def split: option.splits)
  then obtain t where t: "row_tags e (r ! 14) = Inr t" ..
  have "\<exists>q. row_to_qrcode_data e r = Some q \<and> logo_scale q = 0.5 \<and> logo_path q = r ! 9"
    using assms(2,4) a t
    by (simp add: row_to_qrcode_data_def or_default_def post_init_def Let_def)
  then show ?thesis
    using a assms(1) ne by (simp add: load_qrcode_def)
qed

theorem load_logo_scale_60_witness:
  "\<exists>q. load_qrcode example_ext NoFault example_percent_db (asc ''pct'') = Return (Some q)
       \<and> logo_scale q = 0.5 \<and> logo_path q = PStr (asc ''logo.png'')"
proof -
  have 1: "find (\<lambda>x. cell x 0 = PStr (asc ''pct'')) (qrcodes example_percent_db)
             = Some example_percent_row"
    by (simp add: example_percent_db_def example_percent_row_def cell_def)
  have 2: "17 < length example_percent_row" by (simp add: example_percent_row_def)
  have 3: "example_percent_row ! 17 = PInt 60" by (simp add: example_percent_row_def)
  have 4: "truthy (example_percent_row ! 9)" by (simp add: example_percent_row_def asc_def)
  have 5: "\<not> truthy (example_percent_row ! 14) \<or> (\<exists>s. example_percent_row ! 14 = PStr s)"
    by (simp add: example_percent_row_def)
  have 6: "example_percent_row ! 9 = PStr (asc ''logo.png'')"
    by (simp add: example_percent_row_def)
  show ?thesis
    using load_logo_scale_60 [OF 1 2 3 4 5, of example_ext] 6 by simp
qed

section \<open>Failure of the storage engine\<close>

text \<open>
  Claim C4. Every public operation of the store absorbs an error of the storage engine
  and returns its failure value. When \<open>sqlite3.connect\<close> itself raises, \<open>save_qrcode\<close>
  and \<open>load_qrcode\<close> do so, but \<open>get_all_qrcodes\<close>, \<open>delete_qrcode\<close> and
  \<open>search_qrcodes\<close> let an UnboundLocalError escape from their \<open>finally\<close> clause.
\<close>

theorem connect_failure_escapes:
  "get_all_qrcodes e ConnectFails d = Raise UnboundLocalError \<and>
   fst (delete_qrcode ConnectFails d i) = Raise UnboundLocalError \<and>
   search_qrcodes e ConnectFails d keyword qt tgs limit offset = Raise UnboundLocalError \<and>
   fst (save_qrcode e ConnectFails d q) = Return False \<and>
   load_qrcode e ConnectFails d i = Return None"
  by (simp add: get_all_qrcodes_def delete_qrcode_def search_qrcodes_def save_qrcode_def
      load_qrcode_def finally_close_def)

theorem connect_failure_escapes_witness:
  "get_all_qrcodes example_ext ConnectFails example_percent_db = Raise UnboundLocalError \<and>
   fst (delete_qrcode ConnectFails example_percent_db (asc ''pct'')) = Raise UnboundLocalError \<and>
   fst (save_qrcode example_ext ConnectFails example_percent_db example_gradient) = Return False"
  using connect_failure_escapes
    [of example_ext example_percent_db "asc ''pct''" None None None 100 0 example_gradient]
  by simp

section \<open>The confidence score\<close>

text \<open>
  Claim C8, as stated, fails: a hit with a bounding box of area 10000 and a polygon of
  two points scores 1, not the product 1 * 2/4 of the two factors.
\<close>

theorem calculate_confidence_counterexample:
  "calculate_confidence example_ext example_hit = 1 \<and> spec_confidence example_hit = 1 / 2"
  by (simp add: calculate_confidence_def spec_confidence_def example_hit_def py_round2_def
      Let_def frac_def)

text \<open>
  Claim C8, amended. The score is the size factor \<open>min(A/10000, 1)\<close> (taken as 1 unless
  width and height are both positive) times the corner-count factor, rounded to two
  decimals; the corner-count factor \<open>min(P/4, 1)\<close> is applied only to a polygon of at
  least four points, where it is 1, so the point count never lowers the score.
\<close>

theorem calculate_confidence_value:
  assumes "rect obj = Some r" and "polygon obj = Some pts"
  shows "calculate_confidence e obj =
           py_round2 e
             ((if width' r > 0 \<and> height' r > 0
               then min (real_of_int (width' r * height' r) / 10000) 1 else 1)
              * (if length pts \<ge> 4 then min (real (length pts) / 4) 1 else 1)) \<and>
         (if length pts \<ge> 4 then min (real (length pts) / 4) 1 else 1) = (1::real)"
  using assms by (simp add: calculate_confidence_def Let_def)

theorem calculate_confidence_value_witness:
  "calculate_confidence example_ext example_hit = py_round2 example_ext 1"
  using calculate_confidence_value
    [of example_hit "\<lparr> left' = 0, top' = 0, width' = 100, height' = 100 \<rparr>"
      "[(0, 0), (100, 100)]" example_ext]
  by (simp add: example_hit_def)

section \<open>Gradient fill\<close>














section \<open>Cancelling a batch\<close>

lemma batch_loop_stop:
  assumes "k < length qs"
      and "r \<longleftrightarrow> 0 < k"
      and "\<forall>j<k. stops (i + j) \<longleftrightarrow> Suc j = k"
      and "\<forall>q\<in>set (take k qs). slice8 (id' q) \<noteq> None"
  shows "\<exists>mid s'. batch_loop e ok stops total' i qs (r, s, out, None) =
            (False, s', out @ mid @ [ProgressUpdated 0 MsgCancelled, BatchCompleted (i + k) total'],
             None)
          \<and> length (filter is_generating mid) = k
          \<and> (\<forall>x\<in>set mid. \<not> is_summary x)"
  using assms
proof (induction k arbitrary: i qs r s out)
  case 0
  then obtain q qs' where qs: "qs = q # qs'" by (cases qs) auto
  from 0 have "\<not> r" by simp
  then show ?case by (simp add: qs)
next
  case (Suc k)
  then obtain q qs' where qs: "qs = q # qs'" by (cases qs) auto
  from Suc.prems have r: "r" by simp
  from Suc.prems(4) qs obtain p where p: "slice8 (id' q) = Some p" by auto
  have len: "k < length qs'" using Suc.prems(1) qs by simp
  have st0: "stops i \<longleftrightarrow> k = 0" using Suc.prems(3) [rule_format, of 0] by auto
  have r': "(r \<and> \<not> stops i) \<longleftrightarrow> 0 < k" using r st0 by auto
  have st: "\<forall>j<k. stops (Suc i + j) \<longleftrightarrow> Suc j = k"
    using Suc.prems(3) by (metis Suc_less_eq add_Suc_shift nat.inject)
  have sl: "\<forall>q\<in>set (take k qs'). slice8 (id' q) \<noteq> None"
    using Suc.prems(4) qs by simp
  define g where "g = ProgressUpdated (float_percent e (i + 1) total') (MsgGenerating (i + 1) total' p)"
  show ?case
  proof (cases "ok q")
    case True
    from Suc.IH [OF len r' st sl, of "s + 1" "(out @ [g]) @ [BatchCompleted (i + 1) total']"]
    obtain mid s' where
      m: "batch_loop e ok stops total' (Suc i) qs' (r \<and> \<not> stops i, s + 1,
             (out @ [g]) @ [BatchCompleted (i + 1) total'], None) =
           (False, s', ((out @ [g]) @ [BatchCompleted (i + 1) total']) @ mid
               @ [ProgressUpdated 0 MsgCancelled, BatchCompleted (Suc i + k) total'], None)"
      and c: "length (filter is_generating mid) = k"
      and n: "\<forall>x\<in>set mid. \<not> is_summary x"
      by blast
    have "batch_loop e ok stops total' i qs (r, s, out, None) =
            (False, s', out @ (g # BatchCompleted (i + 1) total' # mid)
               @ [ProgressUpdated 0 MsgCancelled, BatchCompleted (i + Suc k) total'], None)"
      using r p True m by (simp add: qs g_def)
    moreover have "length (filter is_generating (g # BatchCompleted (i + 1) total' # mid)) = Suc k"
      using c by (simp add: g_def)
    moreover have "\<forall>x\<in>set (g # BatchCompleted (i + 1) total' # mid). \<not> is_summary x"
      using n by (simp add: g_def)
    ultimately show ?thesis by blast
  next
    case False
    from Suc.IH [OF len r' st sl, of s
        "(out @ [g]) @ [ErrorOccurred (MsgItemFailed p), BatchCompleted (i + 1) total']"]
    obtain mid s' where
      m: "batch_loop e ok stops total' (Suc i) qs' (r \<and> \<not> stops i, s,
             (out @ [g]) @ [ErrorOccurred (MsgItemFailed p), BatchCompleted (i + 1) total'], None) =
           (False, s', ((out @ [g]) @ [ErrorOccurred (MsgItemFailed p), BatchCompleted (i + 1) total'])
               @ mid @ [ProgressUpdated 0 MsgCancelled, BatchCompleted (Suc i + k) total'], None)"
      and c: "length (filter is_generating mid) = k"
      and n: "\<forall>x\<in>set mid. \<not> is_summary x"
      by blast
    have "batch_loop e ok stops total' i qs (r, s, out, None) =
            (False, s', out @ (g # ErrorOccurred (MsgItemFailed p) # BatchCompleted (i + 1) total' # mid)
               @ [ProgressUpdated 0 MsgCancelled, BatchCompleted (i + Suc k) total'], None)"
      using r p False m by (simp add: qs g_def)
    moreover have "length (filter is_generating
        (g # ErrorOccurred (MsgItemFailed p) # BatchCompleted (i + 1) total' # mid)) = Suc k"
      using c by (simp add: g_def)
    moreover have "\<forall>x\<in>set (g # ErrorOccurred (MsgItemFailed p) # BatchCompleted (i + 1) total' # mid).
        \<not> is_summary x"
      using n by (simp add: g_def)
    ultimately show ?thesis by blast
  qed
qed

text \<open>
  Claim C9. In a batch of \<open>N\<close> items started with the flag set, let \<open>stop()\<close> be called
  while item \<open>k\<close> is processed or right after it, and not before, with \<open>0 < k < N\<close>
  (the first \<open>k\<close> items having identifiers that can be sliced). Then the run ends
  normally; after the signals of the first \<open>k\<close> items it emits the cancellation notice
  \<open>progress_updated(0, cancelled)\<close> and, last, \<open>batch_completed(k, N)\<close> with \<open>k < N\<close>;
  exactly \<open>k\<close> items are started; and the closing summary
  \<open>progress_updated(100, ...)\<close> is not emitted.
\<close>

theorem batch_stop_after_item:
  assumes "0 < k" and "k < length batch"
      and "\<forall>j<k. stops j \<longleftrightarrow> Suc j = k"
      and "\<forall>q\<in>set (take k batch). slice8 (id' q) \<noteq> None"
  shows "\<exists>mid. generate_batch e ok stops True batch =
           (ProgressUpdated 0 (MsgBatchStart (length batch)) # mid
              @ [ProgressUpdated 0 MsgCancelled, BatchCompleted k (length batch)], None)
         \<and> length (filter is_generating mid) = k
         \<and> (\<forall>x\<in>set mid. \<not> is_summary x)"
proof -
  have st: "\<forall>j<k. stops (0 + j) \<longleftrightarrow> Suc j = k" using assms(3) by simp
  have r: "True \<longleftrightarrow> 0 < k" using assms(1) by simp
  from batch_loop_stop [OF assms(2) r st assms(4), of e ok "length batch" 0
      "[ProgressUpdated 0 (MsgBatchStart (length batch))]"]
  obtain mid s' where
    m: "batch_loop e ok stops (length batch) 0 batch
          (True, 0, [ProgressUpdated 0 (MsgBatchStart (length batch))], None) =
        (False, s', [ProgressUpdated 0 (MsgBatchStart (length batch))] @ mid
            @ [ProgressUpdated 0 MsgCancelled, BatchCompleted (0 + k) (length batch)], None)"
    and c: "length (filter is_generating mid) = k"
    and n: "\<forall>x\<in>set mid. \<not> is_summary x"
    by blast
  have "generate_batch e ok stops True batch =
           (ProgressUpdated 0 (MsgBatchStart (length batch)) # mid
              @ [ProgressUpdated 0 MsgCancelled, BatchCompleted k (length batch)], None)"
    using m by (simp add: generate_batch_def Let_def)
  then show ?thesis using c n by blast
qed


theorem batch_stop_after_item_witness:
  "\<exists>mid. generate_batch example_ext example_ok example_stops True example_batch =
           (ProgressUpdated 0 (MsgBatchStart 5) # mid
              @ [ProgressUpdated 0 MsgCancelled, BatchCompleted 2 5], None)
         \<and> length (filter is_generating mid) = 2
         \<and> (\<forall>x\<in>set mid. \<not> is_summary x)"
proof -
  have 1: "(0::nat) < 2" by simp
  have 2: "2 < length example_batch" by (simp add: example_batch_def)
  have 3: "\<forall>j<2. example_stops j \<longleftrightarrow> Suc j = 2"
    by (auto simp add: example_stops_def)
  have 4: "\<forall>q\<in>set (take 2 example_batch). slice8 (id' q) \<noteq> None"
    by (simp add: example_batch_def example_gradient_def)
  have 5: "length example_batch = 5" by (simp add: example_batch_def)
  show ?thesis
    using batch_stop_after_item [OF 1 2 3 4, of example_ext example_ok] by (simp add: 5)
qed

section \<open>Saving and loading\<close>





















lemma post_init_constructed: "now_iso e \<noteq> [] \<Longrightarrow> constructed (post_init e r)"
  by (auto simp add: post_init_def constructed_def Let_def)



section \<open>Searching by keyword\<close>





















end
